theory Spec2Isabelle
  imports Main
begin

section \<open>Data model\<close>

text \<open>
  The order workflow of the e-commerce backend: the order controller (\<open>createOrder\<close>,
  \<open>updatePaymentStatus\<close>), the admin order controller (\<open>getAllOrders\<close>,
  \<open>updateOrderStatus\<close>), \<open>sendEmail\<close> and the login route.

  JavaScript numbers are values of a type \<open>'n\<close> about which nothing is assumed: the
  literals, \<open>+\<close>, \<open>-\<close>, \<open>*\<close>, \<open><\<close>, truthiness, \<open>Math.round\<close> and the database's \<open>$inc\<close>
  are operations of the runtime, given with the environment, so every statement holds
  for IEEE doubles with their rounding, infinities and \<open>NaN\<close>.

  Document ids, names and messages are strings. Strings that go through the email
  pattern or \<open>toLowerCase\<close> are lists of UTF-16 code units, as JavaScript has them. A
  field that may be \<open>undefined\<close> is an \<open>option\<close>; where \<open>null\<close> and \<open>undefined\<close> behave
  differently the field is a \<open>nullable\<close>.
\<close>

type_synonym utf16 = "nat list"

datatype 'a nullable = Undefined | Null | Value 'a

text \<open>A thrown \<open>Error\<close>: its message and its stack text.\<close>

record js_error =
  message :: string
  stack :: string

record 'n product =
  name :: string
  price :: 'n
  stock :: 'n
  images :: "string list"

text \<open>
  A line item as the client sends it and as the order embeds it. \<open>item_price\<close> is the
  item's own \<open>price\<close> field (\<open>item.price\<close> in the source), \<open>product\<close> the product id.
\<close>

record 'n item =
  product :: string
  quantity :: 'n
  item_price :: "'n nullable"
  item_size :: "string option"

record history_entry =
  entry_status :: string
  entry_note :: string
  updatedAt :: nat

text \<open>
  The Order document, with the fields the controllers read and write. \<open>oid\<close> is \<open>_id\<close>,
  \<open>user\<close> the id of the linked user. The schema file is not part of the sources: a field
  that \<open>createOrder\<close> does not pass to the constructor starts absent (or empty, for the
  status history).
\<close>

record 'n order =
  oid :: string
  user :: "string option"
  items :: "'n item list"
  shippingAddress :: string
  totalAmount :: 'n
  shippingCost :: "'n nullable"
  taxPrice :: "'n nullable"
  discountAmount :: "'n nullable"
  paymentMethod :: "string option"
  customerName :: string
  customerEmail :: utf16
  paymentStatus :: string
  orderStatus :: string
  paymentIntentId :: "string option"
  status :: "string option"
  statusHistory :: "history_entry list"
  createdAt :: nat

record user_doc =
  uid :: string
  user_name :: string
  email :: utf16
  password :: "string option"
  role :: string

record mail =
  mail_to :: utf16
  subject :: string
  template :: string

record intent =
  intent_id :: string
  client_secret :: string
  intent_status :: string

text \<open>
  JSON values. \<open>JText\<close> is a string given by its code units, \<open>JDate\<close> a date, \<open>JOrder\<close>
  an Order document as the ORM serialises it (\<open>order.toObject()\<close>); a key whose value is
  \<open>undefined\<close> is left out of an object.
\<close>

datatype 'n json =
  JNull | JBool bool | JNum 'n | JStr string | JText utf16 | JDate nat
  | JArr "'n json list" | JObj "(string \<times> 'n json) list" | JOrder "'n order"

text \<open>What a handler sends: \<open>res.status(c).json(b)\<close>, and the cookie it sets, if any.\<close>

record 'n response =
  status_code :: nat
  body :: "'n json"
  cookie :: "(string \<times> string) option"

text \<open>
  The collaborators outside the code. The runtime: the id given to a new document, the
  clock, the \<open>NODE_ENV\<close> switch, the stack text attached to an error raised with a given
  message (\<open>trace\<close>), the number an integer literal denotes (\<open>js_num\<close>), the arithmetic
  of numbers, and \<open>String.prototype.toLowerCase\<close>. The database's \<open>$inc\<close>. The payment
  gateway, the mail templates and transport, the password hash comparison and the token
  signer.
\<close>

record 'n env =
  fresh_id :: string
  now :: nat
  development :: bool
  trace :: "string \<Rightarrow> string"
  js_num :: "int \<Rightarrow> 'n"
  js_plus :: "'n \<Rightarrow> 'n \<Rightarrow> 'n"
  js_minus :: "'n \<Rightarrow> 'n \<Rightarrow> 'n"
  js_times :: "'n \<Rightarrow> 'n \<Rightarrow> 'n"
  js_neg :: "'n \<Rightarrow> 'n"
  js_less :: "'n \<Rightarrow> 'n \<Rightarrow> bool"
  js_falsy :: "'n \<Rightarrow> bool"
  js_round :: "'n \<Rightarrow> 'n"
  db_inc :: "'n \<Rightarrow> 'n \<Rightarrow> 'n"
  toLowerCase :: "utf16 \<Rightarrow> utf16"
  stripe_create :: "'n \<Rightarrow> string \<Rightarrow> js_error + intent"
  stripe_retrieve :: "string \<Rightarrow> js_error + intent"
  emailTemplates :: "string \<Rightarrow> bool"
  sendMail :: "mail \<Rightarrow> js_error option"
  bcrypt_compare :: "utf16 \<Rightarrow> string \<Rightarrow> bool"
  jwt_sign :: "string \<Rightarrow> string \<Rightarrow> string"

text \<open>The document store and the mail that has left the transport.\<close>

record 'n store =
  users :: "user_doc list"
  products :: "string \<rightharpoonup> 'n product"
  orders :: "'n order list"
  outbox :: "mail list"

section \<open>Store operations\<close>

definition findById :: "string \<Rightarrow> 'n order list \<Rightarrow> 'n order option" where
  "findById i os = find (\<lambda>x. oid x = i) os"

text \<open>\<open>order.save()\<close>: insert a new document, or replace the stored one with the same id.\<close>

definition save :: "'n order \<Rightarrow> 'n order list \<Rightarrow> 'n order list" where
  "save x os =
     (if findById (oid x) os = None then os @ [x]
      else map (\<lambda>y. if oid y = oid x then x else y) os)"

fun findByIdAndDelete :: "string \<Rightarrow> 'n order list \<Rightarrow> 'n order list" where
  "findByIdAndDelete i [] = []"
| "findByIdAndDelete i (x # os) =
     (if oid x = i then os else x # findByIdAndDelete i os)"

text \<open>\<open>Product.findByIdAndUpdate(id, { $inc: { stock: d } })\<close>; no document, no change.\<close>

definition inc_stock ::
  "'n env \<Rightarrow> string \<Rightarrow> 'n \<Rightarrow> (string \<rightharpoonup> 'n product) \<Rightarrow> (string \<rightharpoonup> 'n product)" where
  "inc_stock e i d ps =
     (case ps i of None \<Rightarrow> ps | Some p \<Rightarrow> ps(i \<mapsto> p\<lparr>stock := db_inc e (stock p) d\<rparr>))"

section \<open>Responses and errors\<close>

definition json_res :: "nat \<Rightarrow> (string \<times> 'n json) list \<Rightarrow> 'n response" where
  "json_res c b = \<lparr>status_code = c, body = JObj b, cookie = None\<rparr>"

definition quoted :: "string \<Rightarrow> string" where
  "quoted s = CHR 0x27 # s @ [CHR 0x27]"

definition raise :: "'n env \<Rightarrow> string \<Rightarrow> js_error" where
  "raise e m = \<lparr>message = m, stack = trace e m\<rparr>"

text \<open>Reading property \<open>prop\<close> of \<open>undefined\<close> or of \<open>null\<close> (\<open>what\<close> says which).\<close>

definition cannot_read :: "'n env \<Rightarrow> string \<Rightarrow> string \<Rightarrow> js_error" where
  "cannot_read e what prop =
     raise e (''Cannot read properties of '' @ what @ '' (reading '' @ quoted prop @ '')'')"

text \<open>\<open>x || d\<close> on a string: the empty string is falsy.\<close>

definition or_default :: "string \<Rightarrow> string \<Rightarrow> string" where
  "or_default s d = (if s = [] then d else s)"

text \<open>\<open>x || 0\<close> on a number that may be \<open>undefined\<close> or \<open>null\<close>.\<close>

definition or_zero :: "'n env \<Rightarrow> 'n nullable \<Rightarrow> 'n" where
  "or_zero e x =
     (case x of Value v \<Rightarrow> if js_falsy e v then js_num e 0 else v | _ \<Rightarrow> js_num e 0)"

section \<open>sendEmail\<close>

text \<open>
  The template must exist, then the transport sends; any failure is thrown again to the
  caller. The rendered HTML is not modelled: a mail is its recipient, subject and template.
\<close>

definition sendEmail :: "'n env \<Rightarrow> mail \<Rightarrow> 'n store \<Rightarrow> js_error + 'n store" where
  "sendEmail e m st =
     (if \<not> emailTemplates e (template m)
      then Inl (raise e (''Email template '' @ quoted (template m) @ '' not found''))
      else case sendMail e m of
             Some err \<Rightarrow> Inl err
           | None \<Rightarrow> Inr (st\<lparr>outbox := outbox st @ [m]\<rparr>))"

section \<open>createOrder\<close>

text \<open>
  The request body. For \<open>totalAmount\<close> and the strings, \<open>None\<close> stands for \<open>undefined\<close> and
  for \<open>null\<close>, which the handler treats alike.
\<close>

record 'n order_request =
  req_items :: "'n item list option"
  req_shippingAddress :: "string option"
  req_totalAmount :: "'n option"
  req_customerName :: "string option"
  req_customerEmail :: "utf16 option"
  req_paymentMethod :: "string option"
  req_shippingCost :: "'n nullable"
  req_taxPrice :: "'n nullable"
  req_discountAmount :: "'n nullable"

text \<open>
  The first check, negated: \<open>items\<close> is there and not empty, and \<open>shippingAddress\<close>,
  \<open>totalAmount\<close>, \<open>customerName\<close> and \<open>customerEmail\<close> are truthy.
\<close>

definition required_details :: "'n env \<Rightarrow> 'n order_request \<Rightarrow> bool" where
  "required_details e req =
     (req_items req \<noteq> None \<and> req_items req \<noteq> Some []
      \<and> req_shippingAddress req \<noteq> None \<and> req_shippingAddress req \<noteq> Some []
      \<and> (case req_totalAmount req of None \<Rightarrow> False | Some t \<Rightarrow> \<not> js_falsy e t)
      \<and> req_customerName req \<noteq> None \<and> req_customerName req \<noteq> Some []
      \<and> req_customerEmail req \<noteq> None \<and> req_customerEmail req \<noteq> Some [])"

definition missing_details :: "'n response" where
  "missing_details = json_res 400 [(''message'', JStr ''Missing required order details.'')]"

definition product_not_found :: "string \<Rightarrow> 'n response" where
  "product_not_found i = json_res 400 [(''message'', JStr (''Product not found: '' @ i))]"

definition insufficient_stock :: "'n product \<Rightarrow> 'n response" where
  "insufficient_stock p = json_res 400 [(''message'', JStr (''Insufficient stock for '' @ name p))]"

text \<open>
  The first loop: look each product up, stop at the first item that does not resolve
  or asks for more than the stock, and add up server price times quantity.
\<close>

fun validate_items ::
  "'n env \<Rightarrow> (string \<rightharpoonup> 'n product) \<Rightarrow> 'n item list \<Rightarrow> 'n \<Rightarrow> 'n response + 'n" where
  "validate_items e ps [] tot = Inr tot"
| "validate_items e ps (it # its) tot =
     (case ps (product it) of
        None \<Rightarrow> Inl (product_not_found (product it))
      | Some p \<Rightarrow>
          if js_less e (stock p) (quantity it) then Inl (insufficient_stock p)
          else validate_items e ps its (js_plus e tot (js_times e (price p) (quantity it))))"

text \<open>The second loop: one \<open>$inc\<close> of the stock by \<open>-quantity\<close> per line item.\<close>

fun update_stock ::
  "'n env \<Rightarrow> 'n item list \<Rightarrow> (string \<rightharpoonup> 'n product) \<Rightarrow> (string \<rightharpoonup> 'n product)" where
  "update_stock e [] ps = ps"
| "update_stock e (it # its) ps =
     update_stock e its (inc_stock e (product it) (js_neg e (quantity it)) ps)"

definition confirmation_mail :: "utf16 \<Rightarrow> mail" where
  "confirmation_mail addr =
     \<lparr>mail_to = addr, subject = ''Order Confirmation'', template = ''orderConfirmation''\<rparr>"

text \<open>\<open>x.toFixed(2)\<close> throws when \<open>x\<close> is \<open>undefined\<close> or \<open>null\<close>.\<close>

definition toFixed :: "'n env \<Rightarrow> 'n nullable \<Rightarrow> js_error option" where
  "toFixed e x =
     (case x of
        Undefined \<Rightarrow> Some (cannot_read e ''undefined'' ''toFixed'')
      | Null \<Rightarrow> Some (cannot_read e ''null'' ''toFixed'')
      | Value v \<Rightarrow> None)"

text \<open>
  Building the template data calls \<open>shippingCost.toFixed(2)\<close>, then \<open>taxPrice.toFixed(2)\<close>;
  then \<open>sendEmail\<close> runs.
\<close>

definition send_confirmation ::
  "'n env \<Rightarrow> 'n order_request \<Rightarrow> utf16 \<Rightarrow> 'n store \<Rightarrow> js_error + 'n store" where
  "send_confirmation e req addr st =
     (case toFixed e (req_shippingCost req) of
        Some err \<Rightarrow> Inl err
      | None \<Rightarrow>
          (case toFixed e (req_taxPrice req) of
             Some err \<Rightarrow> Inl err
           | None \<Rightarrow> sendEmail e (confirmation_mail addr) st))"

text \<open>The outer \<open>catch\<close>: status 500 with the error's message.\<close>

definition create_failed :: "'n env \<Rightarrow> js_error \<Rightarrow> 'n response" where
  "create_failed e err =
     json_res 500
       ((''message'', JStr (or_default (message err) ''Failed to create order.''))
        # (if development e then [(''error'', JStr (stack err))] else []))"

text \<open>\<open>Math.round(total * 100)\<close>.\<close>

definition cents :: "'n env \<Rightarrow> 'n \<Rightarrow> 'n" where
  "cents e t = js_round e (js_times e t (js_num e 100))"

text \<open>
  The \<open>try\<close> block of the card branch: create the intent, save its id on the order, send
  the confirmation, answer 201. \<open>Inl\<close> is an exception leaving the block, with the store
  as it is at that point.
\<close>

definition card_payment ::
  "'n env \<Rightarrow> 'n order_request \<Rightarrow> 'n \<Rightarrow> 'n order \<Rightarrow> 'n store
     \<Rightarrow> (js_error \<times> 'n store) + ('n response \<times> 'n store)" where
  "card_payment e req tot ord st =
     (case stripe_create e (cents e tot) (oid ord) of
        Inl err \<Rightarrow> Inl (err, st)
      | Inr pint \<Rightarrow>
          let st1 = st\<lparr>orders := save (ord\<lparr>paymentIntentId := Some (intent_id pint)\<rparr>) (orders st)\<rparr>
          in case send_confirmation e req (customerEmail ord) st1 of
               Inl err \<Rightarrow> Inl (err, st1)
             | Inr st2 \<Rightarrow>
                 Inr (json_res 201 [(''clientSecret'', JStr (client_secret pint)),
                                    (''orderId'', JStr (oid ord))], st2))"

text \<open>\<open>new Order({...})\<close>: the document as the constructor call fills it.\<close>

definition new_order ::
  "'n env \<Rightarrow> 'n order_request \<Rightarrow> 'n item list \<Rightarrow> string \<Rightarrow> string \<Rightarrow> utf16 \<Rightarrow> 'n \<Rightarrow> 'n order" where
  "new_order e req its addr cname cemail tot =
     \<lparr>oid = fresh_id e, user = None, items = its, shippingAddress = addr,
      totalAmount = tot, shippingCost = req_shippingCost req,
      taxPrice = req_taxPrice req, discountAmount = req_discountAmount req,
      paymentMethod = req_paymentMethod req, customerName = cname,
      customerEmail = cemail, paymentStatus = ''pending'',
      orderStatus = ''processing'', paymentIntentId = None, status = None,
      statusHistory = [], createdAt = now e\<rparr>"

text \<open>
  \<open>total += shippingCost || 0; total += taxPrice || 0; total -= discountAmount || 0\<close>.
\<close>

definition charged :: "'n env \<Rightarrow> 'n order_request \<Rightarrow> 'n \<Rightarrow> 'n" where
  "charged e req total0 =
     js_minus e
       (js_plus e (js_plus e total0 (or_zero e (req_shippingCost req)))
          (or_zero e (req_taxPrice req)))
       (or_zero e (req_discountAmount req))"

text \<open>Everything after the two validations, for a request whose required fields are there.\<close>

definition place_order ::
  "'n env \<Rightarrow> 'n order_request \<Rightarrow> 'n item list \<Rightarrow> string \<Rightarrow> string \<Rightarrow> utf16 \<Rightarrow> 'n \<Rightarrow> 'n store
     \<Rightarrow> 'n response \<times> 'n store" where
  "place_order e req its addr cname cemail total0 st =
     (let tot = charged e req total0;
          ord = new_order e req its addr cname cemail tot;
          st1 = st\<lparr>orders := save ord (orders st)\<rparr>;
          st2 = st1\<lparr>products := update_stock e its (products st1)\<rparr>
      in if req_paymentMethod req = Some ''card'' then
           (case card_payment e req tot ord st2 of
              Inr r \<Rightarrow> r
            | Inl (err, st3) \<Rightarrow>
                (create_failed e err,
                 st3\<lparr>orders := findByIdAndDelete (oid ord) (orders st3)\<rparr>))
         else
           (case send_confirmation e req cemail st2 of
              Inl err \<Rightarrow> (create_failed e err, st2)
            | Inr st3 \<Rightarrow>
                (json_res 201 [(''message'', JStr ''Order created successfully''),
                               (''orderId'', JStr (oid ord))], st3)))"

definition createOrder :: "'n env \<Rightarrow> 'n order_request \<Rightarrow> 'n store \<Rightarrow> 'n response \<times> 'n store" where
  "createOrder e req st =
     (if \<not> required_details e req then (missing_details, st)
      else
        (case (req_items req, req_shippingAddress req, req_customerName req, req_customerEmail req) of
           (Some its, Some addr, Some cname, Some cemail) \<Rightarrow>
             (case validate_items e (products st) its (js_num e 0) of
                Inl r \<Rightarrow> (r, st)
              | Inr total0 \<Rightarrow> place_order e req its addr cname cemail total0 st)
         | _ \<Rightarrow> (missing_details, st)))"

section \<open>updatePaymentStatus\<close>

record payment_request =
  pr_orderId :: string
  pr_paymentIntentId :: string
  pr_status :: string

text \<open>\<open>populate('user', 'name email')\<close>: the linked user document, \<open>null\<close> when there is none.\<close>

definition populate_user :: "user_doc list \<Rightarrow> string \<Rightarrow> user_doc option" where
  "populate_user us u = find (\<lambda>d. uid d = u) us"

definition status_mail :: "utf16 \<Rightarrow> mail" where
  "status_mail addr =
     \<lparr>mail_to = addr, subject = ''Order Status Update'', template = ''orderStatusUpdate''\<rparr>"

definition payment_update_failed :: "js_error \<Rightarrow> 'n response" where
  "payment_update_failed err =
     json_res 500 [(''message'', JStr (or_default (message err) ''Failed to update payment status.''))]"

text \<open>
  The email of the \<open>succeeded\<close> branch goes to \<open>order.user.email\<close>: reading it throws when
  the order has no \<open>user\<close> field or the populated user is \<open>null\<close>.
\<close>

definition notify_paid :: "'n env \<Rightarrow> 'n order \<Rightarrow> 'n store \<Rightarrow> js_error + 'n store" where
  "notify_paid e ord st =
     (case user ord of
        None \<Rightarrow> Inl (cannot_read e ''undefined'' ''email'')
      | Some u \<Rightarrow>
          (case populate_user (users st) u of
             None \<Rightarrow> Inl (cannot_read e ''null'' ''email'')
           | Some d \<Rightarrow> sendEmail e (status_mail (email d)) st))"

definition updatePaymentStatus ::
  "'n env \<Rightarrow> payment_request \<Rightarrow> 'n store \<Rightarrow> 'n response \<times> 'n store" where
  "updatePaymentStatus e req st =
     (case findById (pr_orderId req) (orders st) of
        None \<Rightarrow> (json_res 404 [(''message'', JStr ''Order not found.'')], st)
      | Some ord \<Rightarrow>
          (case stripe_retrieve e (pr_paymentIntentId req) of
             Inl err \<Rightarrow> (payment_update_failed err, st)
           | Inr pint \<Rightarrow>
               if intent_status pint = ''succeeded'' then
                 (let st1 = st\<lparr>orders :=
                            save (ord\<lparr>paymentStatus := ''paid'', orderStatus := ''processing''\<rparr>)
                              (orders st)\<rparr>
                  in case notify_paid e ord st1 of
                       Inl err \<Rightarrow> (payment_update_failed err, st1)
                     | Inr st2 \<Rightarrow>
                         (json_res 200 [(''message'', JStr ''Payment status updated to paid.'')], st2))
               else if intent_status pint = ''payment_failed'' then
                 (json_res 400 [(''message'', JStr ''Payment failed.'')],
                  st\<lparr>orders := save (ord\<lparr>paymentStatus := ''failed''\<rparr>) (orders st)\<rparr>)
               else
                 (json_res 400 [(''message'', JStr ''Payment intent status is not succeeded.'')], st)))"

section \<open>Admin: updateOrderStatus\<close>

record status_request =
  sr_orderId :: string
  sr_status :: string
  sr_note :: "string option"

text \<open>
  The notification sits in its own \<open>try\<close>: building the item list reads
  \<open>item.product.name\<close> of every populated item, then \<open>sendEmail\<close> runs, and whatever is
  thrown there is logged and dropped.
\<close>

definition notify_status :: "'n env \<Rightarrow> 'n order \<Rightarrow> 'n store \<Rightarrow> 'n store" where
  "notify_status e ord st =
     (if list_all (\<lambda>it. products st (product it) \<noteq> None) (items ord)
      then (case sendEmail e (status_mail (customerEmail ord)) st of
              Inl err \<Rightarrow> st
            | Inr st' \<Rightarrow> st')
      else st)"

definition updateOrderStatus ::
  "'n env \<Rightarrow> status_request \<Rightarrow> 'n store \<Rightarrow> 'n response \<times> 'n store" where
  "updateOrderStatus e req st =
     (case findById (sr_orderId req) (orders st) of
        None \<Rightarrow> (json_res 404 [(''message'', JStr ''Order not found'')], st)
      | Some ord \<Rightarrow>
          (let entry = \<lparr>entry_status = sr_status req,
                        entry_note = or_default (case sr_note req of None \<Rightarrow> [] | Some n \<Rightarrow> n)
                                       (''Status updated to '' @ sr_status req),
                        updatedAt = now e\<rparr>;
               ord' = ord\<lparr>status := Some (sr_status req),
                          statusHistory := statusHistory ord @ [entry]\<rparr>;
               st1 = st\<lparr>orders := save ord' (orders st)\<rparr>
           in (json_res 200 [(''message'', JStr ''Order status updated successfully''),
                             (''order'', JOrder ord')],
               notify_status e ord' st1)))"

section \<open>Admin: getAllOrders\<close>











section \<open>Login\<close>

record login_body =
  lb_email :: "utf16 option"
  lb_password :: "utf16 option"

text \<open>
  The code units \<open>\s\<close> matches: tab, line feed, vertical tab, form feed, carriage return,
  space, U+00A0, U+1680, U+2000 to U+200A, U+2028, U+2029, U+202F, U+205F, U+3000, U+FEFF.
\<close>

definition is_space :: "nat \<Rightarrow> bool" where
  "is_space c =
     ((9 \<le> c \<and> c \<le> 13) \<or> c = 32 \<or> c = 160 \<or> c = 5760 \<or> (8192 \<le> c \<and> c \<le> 8202)
      \<or> c = 8232 \<or> c = 8233 \<or> c = 8239 \<or> c = 8287 \<or> c = 12288 \<or> c = 65279)"

text \<open>\<open>[^\s@]\<close>: 64 is the code unit of \<open>@\<close>.\<close>

definition plain :: "nat \<Rightarrow> bool" where
  "plain c = (\<not> is_space c \<and> c \<noteq> 64)"

text \<open>
  \<open>/^[^\s@]+@[^\s@]+\.[^\s@]+$/\<close>: a non-empty plain local part, one \<open>@\<close>, and a plain
  domain with a dot (code unit 46) that is neither its first nor its last code unit.
\<close>

definition emailRegex_test :: "utf16 \<Rightarrow> bool" where
  "emailRegex_test s =
     (let l = takeWhile plain s; r = dropWhile plain s
      in l \<noteq> [] \<and> r \<noteq> [] \<and> hd r = 64 \<and> list_all plain (tl r)
         \<and> 46 \<in> set (tl (butlast (tl r))))"

definition falsy :: "utf16 option \<Rightarrow> bool" where
  "falsy x = (x = None \<or> x = Some [])"

definition login_error :: "nat \<Rightarrow> string \<Rightarrow> string \<Rightarrow> 'n response" where
  "login_error c msg err = json_res c [(''message'', JStr msg), (''error'', JStr err)]"

definition server_error :: "'n env \<Rightarrow> js_error \<Rightarrow> 'n response" where
  "server_error e err =
     json_res 500
       ((''message'', JStr ''Server error'')
        # (if development e
           then [(''error'', JStr (message err)), (''stack'', JStr (stack err))] else []))"

definition login_ok :: "'n env \<Rightarrow> user_doc \<Rightarrow> 'n response" where
  "login_ok e u =
     (let token = jwt_sign e (uid u) (role u)
      in \<lparr>status_code = 200,
          body = JObj [(''success'', JBool True), (''token'', JStr token),
                       (''user'', JObj [(''id'', JStr (uid u)), (''name'', JStr (user_name u)),
                                        (''email'', JText (email u)), (''role'', JStr (role u))]),
                       (''redirectUrl'',
                        JStr (if role u = ''admin'' then ''/admin/dashboard'' else ''/''))],
          cookie = Some (''token'', token)\<rparr>)"

definition missing_fields :: "utf16 option \<Rightarrow> utf16 option \<Rightarrow> 'n response" where
  "missing_fields em pw =
     json_res 400
       [(''message'', JStr ''Email and password are required''),
        (''error'', JStr ''MISSING_FIELDS''),
        (''details'', JObj
           [(''email'', if falsy em then JStr ''Email is required'' else JNull),
            (''password'', if falsy pw then JStr ''Password is required'' else JNull)])]"

text \<open>
  The handler once both fields are there: format check, lookup by lower-cased email,
  hash comparison (which throws on a user without a password hash), token and cookie.
\<close>

definition check_credentials :: "'n env \<Rightarrow> utf16 \<Rightarrow> utf16 \<Rightarrow> 'n store \<Rightarrow> 'n response" where
  "check_credentials e em pw st =
     (if \<not> emailRegex_test em then login_error 400 ''Invalid email format'' ''INVALID_EMAIL''
      else
        (case find (\<lambda>u. email u = toLowerCase e em) (users st) of
           None \<Rightarrow> login_error 400 ''Invalid email or password'' ''USER_NOT_FOUND''
         | Some u \<Rightarrow>
             (case password u of
                None \<Rightarrow> server_error e (raise e ''Illegal arguments: string, undefined'')
              | Some h \<Rightarrow>
                  if \<not> bcrypt_compare e pw h
                  then login_error 400 ''Invalid email or password'' ''INVALID_PASSWORD''
                  else login_ok e u)))"

definition login :: "'n env \<Rightarrow> login_body option \<Rightarrow> 'n store \<Rightarrow> 'n response" where
  "login e b st =
     (case b of
        None \<Rightarrow> login_error 400 ''Request body is required'' ''NO_BODY''
      | Some req \<Rightarrow>
          (case (lb_email req, lb_password req) of
             (Some em, Some pw) \<Rightarrow>
               if em = [] \<or> pw = [] then missing_fields (lb_email req) (lb_password req)
               else check_credentials e em pw st
           | _ \<Rightarrow> missing_fields (lb_email req) (lb_password req)))"

section \<open>Notions of the specification\<close>

text \<open>A line passes its check: the product id resolves and the stock is not below the quantity.\<close>

definition valid_line :: "'n env \<Rightarrow> (string \<rightharpoonup> 'n product) \<Rightarrow> 'n item \<Rightarrow> bool" where
  "valid_line e ps it =
     (case ps (product it) of None \<Rightarrow> False | Some p \<Rightarrow> \<not> js_less e (stock p) (quantity it))"

definition valid_cart :: "'n env \<Rightarrow> (string \<rightharpoonup> 'n product) \<Rightarrow> 'n item list \<Rightarrow> bool" where
  "valid_cart e ps its = list_all (valid_line e ps) its"

text \<open>The error a line that fails its check is answered with.\<close>

definition rejection :: "(string \<rightharpoonup> 'n product) \<Rightarrow> 'n item \<Rightarrow> 'n response" where
  "rejection ps it =
     (case ps (product it) of None \<Rightarrow> product_not_found (product it) | Some p \<Rightarrow> insufficient_stock p)"

text \<open>
  The sum over the lines of catalog price times quantity, added up from 0 in cart order
  with the runtime's arithmetic.
\<close>

definition line_amount :: "'n env \<Rightarrow> (string \<rightharpoonup> 'n product) \<Rightarrow> 'n \<Rightarrow> 'n item \<Rightarrow> 'n" where
  "line_amount e ps acc it =
     (case ps (product it) of
        None \<Rightarrow> acc
      | Some p \<Rightarrow> js_plus e acc (js_times e (price p) (quantity it)))"

definition server_total :: "'n env \<Rightarrow> (string \<rightharpoonup> 'n product) \<Rightarrow> 'n item list \<Rightarrow> 'n" where
  "server_total e ps its = foldl (line_amount e ps) (js_num e 0) its"

text \<open>That sum plus \<open>shippingCost\<close> plus \<open>taxPrice\<close> minus \<open>discountAmount\<close>.\<close>

definition order_total ::
  "'n env \<Rightarrow> (string \<rightharpoonup> 'n product) \<Rightarrow> 'n item list \<Rightarrow> 'n order_request \<Rightarrow> 'n" where
  "order_total e ps its req =
     js_minus e
       (js_plus e (js_plus e (server_total e ps its) (or_zero e (req_shippingCost req)))
          (or_zero e (req_taxPrice req)))
       (or_zero e (req_discountAmount req))"

text \<open>The quantities a cart asks of product \<open>i\<close>, one per line that names it.\<close>

definition purchased :: "'n item list \<Rightarrow> string \<Rightarrow> 'n list" where
  "purchased its i = map quantity (filter (\<lambda>it. product it = i) its)"

text \<open>A stock count decreased by each of the quantities \<open>qs\<close>, with the database's \<open>$inc\<close>.\<close>

definition decrease :: "'n env \<Rightarrow> 'n \<Rightarrow> 'n list \<Rightarrow> 'n" where
  "decrease e s qs = foldl (\<lambda>s q. db_inc e s (js_neg e q)) s qs"

definition stock_at :: "'n store \<Rightarrow> string \<Rightarrow> 'n option" where
  "stock_at st i = map_option stock (products st i)"




text \<open>A login request with both fields.\<close>

definition credentials :: "utf16 \<Rightarrow> utf16 \<Rightarrow> login_body option" where
  "credentials em pw = Some \<lparr>lb_email = Some em, lb_password = Some pw\<rparr>"



section \<open>Sample data\<close>

text \<open>
  The samples use small integers as numbers, on which the arithmetic of doubles is the
  exact one, and ASCII strings, on which \<open>toLowerCase\<close> maps \<open>A\<close> to \<open>Z\<close> only.
\<close>

definition ascii :: "string \<Rightarrow> utf16" where
  "ascii s = map of_char s"

definition ascii_lower :: "utf16 \<Rightarrow> utf16" where
  "ascii_lower s = map (\<lambda>c. if 65 \<le> c \<and> c \<le> 90 then c + 32 else c) s"

definition gateway_intent :: "string \<Rightarrow> intent" where
  "gateway_intent s = \<lparr>intent_id = ''pi_1'', client_secret = ''pi_1_secret'', intent_status = s\<rparr>"

definition env_ok :: "int env" where
  "env_ok =
     \<lparr>fresh_id = ''650a7'', now = 100, development = False, trace = (\<lambda>m. []),
      js_num = (\<lambda>i. i), js_plus = (\<lambda>a b. a + b), js_minus = (\<lambda>a b. a - b),
      js_times = (\<lambda>a b. a * b), js_neg = (\<lambda>a. - a), js_less = (\<lambda>a b. a < b),
      js_falsy = (\<lambda>a. a = 0), js_round = (\<lambda>a. a), db_inc = (\<lambda>a b. a + b),
      toLowerCase = ascii_lower,
      stripe_create = (\<lambda>a i. Inr (gateway_intent ''requires_payment_method'')),
      stripe_retrieve = (\<lambda>i. Inr (gateway_intent ''succeeded'')),
      emailTemplates = (\<lambda>t. True), sendMail = (\<lambda>m. None),
      bcrypt_compare = (\<lambda>pw h. ascii h = ascii ''hash-'' @ pw), jwt_sign = (\<lambda>u r. ''jwt-'' @ u)\<rparr>"

definition env_gateway_down :: "int env" where
  "env_gateway_down =
     env_ok\<lparr>stripe_create := (\<lambda>a i. Inl \<lparr>message = ''gateway unreachable'', stack = []\<rparr>)\<rparr>"

definition env_mail_down :: "int env" where
  "env_mail_down =
     env_ok\<lparr>sendMail := (\<lambda>m. Some \<lparr>message = ''connect ECONNREFUSED'', stack = []\<rparr>)\<rparr>"

definition mug :: "int product" where
  "mug = \<lparr>name = ''Mug'', price = 10, stock = 5, images = [''mug.png'']\<rparr>"

definition pen :: "int product" where
  "pen = \<lparr>name = ''Pen'', price = 3, stock = 0, images = []\<rparr>"

definition alice :: user_doc where
  "alice = \<lparr>uid = ''u1'', user_name = ''Alice'', email = ascii ''alice@shop.io'',
            password = Some ''hash-secret'', role = ''user''\<rparr>"

definition shop :: "int store" where
  "shop = \<lparr>users = [alice], products = [''p1'' \<mapsto> mug, ''p2'' \<mapsto> pen], orders = [],
           outbox = []\<rparr>"

text \<open>A line as the client sends it, with a price of its own of 1.\<close>

definition line :: "string \<Rightarrow> int \<Rightarrow> int item" where
  "line i q = \<lparr>product = i, quantity = q, item_price = Value 1, item_size = None\<rparr>"

text \<open>Bob's checkout: a \<open>totalAmount\<close> of 1 in the body, shipping 5, tax 2, discount 1.\<close>

definition checkout :: "int item list \<Rightarrow> string \<Rightarrow> int order_request" where
  "checkout its method =
     \<lparr>req_items = Some its, req_shippingAddress = Some ''1 Main St'',
      req_totalAmount = Some 1, req_customerName = Some ''Bob'',
      req_customerEmail = Some (ascii ''bob@mail.io''), req_paymentMethod = Some method,
      req_shippingCost = Value 5, req_taxPrice = Value 2, req_discountAmount = Value 1\<rparr>"

text \<open>The store after Bob's card order for two mugs, and the callback that confirms it.\<close>

definition shop_after_checkout :: "int store" where
  "shop_after_checkout = snd (createOrder env_ok (checkout [line ''p1'' 2] ''card'') shop)"

definition confirm :: "string \<Rightarrow> payment_request" where
  "confirm claimed = \<lparr>pr_orderId = ''650a7'', pr_paymentIntentId = ''pi_1'', pr_status = claimed\<rparr>"

text \<open>An order linked to the user Alice, as stored.\<close>

definition alices_order :: "int order" where
  "alices_order =
     \<lparr>oid = ''650a7'', user = Some ''u1'', items = [line ''p1'' 2], shippingAddress = ''1 Main St'',
      totalAmount = 26, shippingCost = Value 5, taxPrice = Value 2, discountAmount = Value 1,
      paymentMethod = Some ''card'', customerName = ''Alice'',
      customerEmail = ascii ''alice@shop.io'',
      paymentStatus = ''pending'', orderStatus = ''processing'', paymentIntentId = Some ''pi_1'',
      status = None, statusHistory = [], createdAt = 90\<rparr>"

definition shop_with_order :: "int store" where
  "shop_with_order = shop\<lparr>orders := [alices_order]\<rparr>"

text \<open>The admin marks that order as shipped.\<close>

definition mark_shipped :: status_request where
  "mark_shipped = \<lparr>sr_orderId = ''650a7'', sr_status = ''shipped'', sr_note = None\<rparr>"

section \<open>The orders collection\<close>

lemma findById_append:
  "findById i (os @ [x]) = (case findById i os of Some y \<Rightarrow> Some y | None \<Rightarrow> if oid x = i then Some x else None)"
  by (induction os) (auto simp: findById_def)

lemma findById_save:
  "findById i (save x os) = (if oid x = i then Some x else findById i os)"
proof (cases "findById (oid x) os")
  case None
  then show ?thesis by (auto simp: save_def findById_append split: option.splits)
next
  case (Some y)
  have "find (\<lambda>z. oid z = i) (map (\<lambda>y. if oid y = oid x then x else y) os)
        = (if oid x = i then (if find (\<lambda>z. oid z = oid x) os = None then None else Some x) else find (\<lambda>z. oid z = i) os)"
    by (induction os) auto
  with Some show ?thesis by (auto simp: save_def findById_def)
qed

lemma findById_oid: "findById i os = Some x \<Longrightarrow> oid x = i"
  by (auto simp: findById_def dest: find_Some_iff[THEN iffD1])


lemma save_save: "oid y = oid x \<Longrightarrow> save y (save x os) = save y os"
  by (induction os) (auto simp: save_def findById_def split: if_splits)

lemma save_fresh: "findById (oid x) os = None \<Longrightarrow> save x os = os @ [x]"
  by (simp add: save_def)


lemma delete_last:
  "findById i os = None \<Longrightarrow> oid x = i \<Longrightarrow> findByIdAndDelete i (os @ [x]) = os"
  by (induction os) (auto simp: findById_def split: if_splits)

section \<open>createOrder: the total\<close>

lemma foldl_line_amount_valid:
  "validate_items e ps its acc = Inr t \<Longrightarrow> t = foldl (line_amount e ps) acc its \<and> valid_cart e ps its"
proof (induction e ps its acc rule: validate_items.induct)
  case (1 e ps tot)
  then show ?case by (simp add: valid_cart_def)
next
  case (2 e ps it its tot)
  from "2.prems" obtain p where p: "ps (product it) = Some p"
    and ok: "\<not> js_less e (stock p) (quantity it)"
    and rest: "validate_items e ps its (js_plus e tot (js_times e (price p) (quantity it))) = Inr t"
    by (auto split: option.splits if_splits)
  from "2.IH"[OF p ok rest] p ok show ?case
    by (simp add: valid_cart_def valid_line_def line_amount_def)
qed

lemma validate_items_total:
  "validate_items e ps its (js_num e 0) = Inr t \<Longrightarrow> t = server_total e ps its \<and> valid_cart e ps its"
  using foldl_line_amount_valid[of e ps its "js_num e 0" t] by (simp add: server_total_def)

lemma validate_items_valid_acc:
  "valid_cart e ps its \<Longrightarrow> validate_items e ps its acc = Inr (foldl (line_amount e ps) acc its)"
  by (induction its arbitrary: acc)
     (auto simp: valid_cart_def valid_line_def line_amount_def split: option.splits)

lemma validate_items_valid:
  "valid_cart e ps its \<Longrightarrow> validate_items e ps its (js_num e 0) = Inr (server_total e ps its)"
  by (simp add: validate_items_valid_acc server_total_def)

text \<open>A cart that is not valid is answered with the error of its first failing line.\<close>

lemma validate_items_invalid:
  "\<not> valid_cart e ps its \<Longrightarrow>
   \<exists>pre bad post. its = pre @ bad # post \<and> valid_cart e ps pre \<and> \<not> valid_line e ps bad
      \<and> validate_items e ps its acc = Inl (rejection ps bad)"
proof (induction its arbitrary: acc)
  case Nil
  then show ?case by (simp add: valid_cart_def)
next
  case (Cons it its)
  show ?case
  proof (cases "valid_line e ps it")
    case False
    then have "validate_items e ps (it # its) acc = Inl (rejection ps it)"
      by (auto simp: valid_line_def rejection_def split: option.splits)
    with False show ?thesis
      by (intro exI[of _ "[]"] exI[of _ it] exI[of _ its]) (simp add: valid_cart_def)
  next
    case True
    then obtain p where p: "ps (product it) = Some p" and ok: "\<not> js_less e (stock p) (quantity it)"
      by (auto simp: valid_line_def split: option.splits)
    from True Cons.prems have "\<not> valid_cart e ps its" by (simp add: valid_cart_def)
    from Cons.IH[OF this, of "js_plus e acc (js_times e (price p) (quantity it))"]
    obtain pre bad post where h: "its = pre @ bad # post" "valid_cart e ps pre"
      "\<not> valid_line e ps bad"
      "validate_items e ps its (js_plus e acc (js_times e (price p) (quantity it))) = Inl (rejection ps bad)"
      by blast
    with True p ok show ?thesis
      by (intro exI[of _ "it # pre"] exI[of _ bad] exI[of _ post]) (simp add: valid_cart_def)
  qed
qed

lemma status_rejection: "status_code (rejection ps it) = 400"
  by (simp add: rejection_def product_not_found_def insufficient_stock_def json_res_def
      split: option.splits)

lemma sendEmail_orders:
  "sendEmail e m st = Inr st' \<Longrightarrow>
   orders st' = orders st \<and> products st' = products st \<and> users st' = users st"
  by (auto simp: sendEmail_def split: if_splits option.splits)

lemma send_confirmation_orders:
  "send_confirmation e req a st = Inr st' \<Longrightarrow>
   orders st' = orders st \<and> products st' = products st \<and> users st' = users st"
  by (auto simp: send_confirmation_def dest: sendEmail_orders split: option.splits)

lemma oid_new_order [simp]: "oid (new_order e req its addr cname cemail t) = fresh_id e"
  by (simp add: new_order_def)

lemma totalAmount_new_order [simp]: "totalAmount (new_order e req its addr cname cemail t) = t"
  by (simp add: new_order_def)

lemma items_new_order [simp]: "items (new_order e req its addr cname cemail t) = its"
  by (simp add: new_order_def)

lemma charged_total: "charged e req (server_total e ps its) = order_total e ps its req"
  by (simp add: charged_def order_total_def)



lemma status_create_failed: "status_code (create_failed e err) = 500"
  by (simp add: create_failed_def json_res_def)

lemma card_payment_Inr:
  assumes "card_payment e req t ord st = Inr (r, st')"
  shows "status_code r = 201
       \<and> (\<exists>pint. stripe_create e (cents e t) (oid ord) = Inr pint
             \<and> orders st' = save (ord\<lparr>paymentIntentId := Some (intent_id pint)\<rparr>) (orders st))
       \<and> products st' = products st \<and> users st' = users st"
  using assms
  by (auto simp: card_payment_def Let_def json_res_def split: sum.splits
      dest!: send_confirmation_orders)

lemma card_payment_Inl:
  assumes "card_payment e req t ord st = Inl (err, st')"
  shows "(stripe_create e (cents e t) (oid ord) = Inl err \<and> st' = st)
       \<or> (\<exists>pint. stripe_create e (cents e t) (oid ord) = Inr pint
             \<and> st' = st\<lparr>orders := save (ord\<lparr>paymentIntentId := Some (intent_id pint)\<rparr>) (orders st)\<rparr>)"
  using assms
  by (auto simp: card_payment_def Let_def split: sum.splits)



lemma createOrder_missing:
  "\<not> required_details e req \<Longrightarrow> createOrder e req st = (missing_details, st)"
  by (simp add: createOrder_def)

lemma createOrder_required:
  assumes "required_details e req" and "req_items req = Some its"
  shows "\<exists>addr cname cemail. createOrder e req st =
           (case validate_items e (products st) its (js_num e 0) of
              Inl r \<Rightarrow> (r, st)
            | Inr t0 \<Rightarrow> place_order e req its addr cname cemail t0 st)"
  using assms by (auto simp: createOrder_def required_details_def split: option.splits)

lemma createOrder_valid_runs:
  assumes req: "required_details e req" and its: "req_items req = Some its"
      and valid: "valid_cart e (products st) its"
  shows "\<exists>addr cname cemail. createOrder e req st =
           place_order e req its addr cname cemail (server_total e (products st) its) st"
  using createOrder_required[OF req its, of st] validate_items_valid[OF valid]
  by simp

lemma createOrder_cases:
  assumes its: "req_items req = Some its"
  shows "(\<not> required_details e req \<and> createOrder e req st = (missing_details, st))
       \<or> (required_details e req \<and> \<not> valid_cart e (products st) its
            \<and> (\<exists>r. validate_items e (products st) its (js_num e 0) = Inl r
                     \<and> createOrder e req st = (r, st)))
       \<or> (required_details e req \<and> valid_cart e (products st) its
            \<and> (\<exists>addr cname cemail. createOrder e req st =
                  place_order e req its addr cname cemail (server_total e (products st) its) st))"
proof (cases "required_details e req")
  case False
  then show ?thesis by (simp add: createOrder_missing)
next
  case True
  show ?thesis
  proof (cases "valid_cart e (products st) its")
    case valid: True
    from createOrder_valid_runs[OF True its valid] True valid show ?thesis by simp
  next
    case False
    from validate_items_invalid[OF False, of "js_num e 0"] obtain r where
      r: "validate_items e (products st) its (js_num e 0) = Inl r" by blast
    with createOrder_required[OF True its, of st] True False show ?thesis by auto
  qed
qed

lemma status_validate_items:
  "validate_items e ps its acc = Inl r \<Longrightarrow> status_code r = 400"
  by (induction e ps its acc rule: validate_items.induct)
     (auto simp: product_not_found_def insufficient_stock_def json_res_def
       split: option.splits if_splits)

lemma status_missing_details: "status_code missing_details = 400"
  by (simp add: missing_details_def json_res_def)


lemmas eval_defs = createOrder_def checkout_def line_def shop_def mug_def pen_def env_ok_def
      place_order_def new_order_def save_def findById_def send_confirmation_def sendEmail_def
      confirmation_mail_def json_res_def Let_def gateway_intent_def or_zero_def card_payment_def
      insufficient_stock_def product_not_found_def missing_details_def create_failed_def
      or_default_def inc_stock_def stock_at_def env_mail_down_def env_gateway_down_def
      required_details_def valid_cart_def valid_line_def charged_def toFixed_def cents_def
      ascii_def


section \<open>createOrder: rejected carts\<close>

lemma over_stock_invalid:
  "it \<in> set its \<Longrightarrow> ps (product it) = Some p \<Longrightarrow> js_less e (stock p) (quantity it)
   \<Longrightarrow> \<not> valid_cart e ps its"
  by (force simp: valid_cart_def valid_line_def list_all_iff)

lemma validate_items_first_failure:
  "valid_cart e ps pre \<Longrightarrow> \<not> valid_line e ps bad
   \<Longrightarrow> validate_items e ps (pre @ bad # post) acc = Inl (rejection ps bad)"
  by (induction pre arbitrary: acc)
     (auto simp: valid_cart_def valid_line_def rejection_def split: option.splits)

lemma createOrder_invalid_cart:
  assumes its: "req_items req = Some its"
      and req: "required_details e req"
      and bad: "\<not> valid_cart e (products st) its"
  shows "\<exists>pre bad post. its = pre @ bad # post \<and> valid_cart e (products st) pre
           \<and> \<not> valid_line e (products st) bad
           \<and> createOrder e req st = (rejection (products st) bad, st)"
proof -
  from validate_items_invalid[OF bad, of "js_num e 0"] obtain pre b post where
    h: "its = pre @ b # post" "valid_cart e (products st) pre" "\<not> valid_line e (products st) b"
       "validate_items e (products st) its (js_num e 0) = Inl (rejection (products st) b)"
    by blast
  with createOrder_required[OF req its, of st] show ?thesis by auto
qed

text \<open>
  Claim C2, as amended. When some line of the cart asks for more than the stock of its
  product, \<open>createOrder\<close> answers 400 and leaves the store as it was: no order is created
  and no stock is decremented. The answer is the missing-details message when a required
  detail is missing; otherwise it is the error of the first line, in cart order, that
  fails its check: product-not-found when that line's product does not resolve, the
  insufficient-stock message of that line's product when it asks for more than the stock.
  So it is the insufficient-stock message of the line in question whenever the required
  details are there and every line before it is valid.
\<close>

theorem createOrder_over_stock:
  assumes its: "req_items req = Some its"
      and it: "it \<in> set its"
      and p: "products st (product it) = Some p"
      and over: "js_less e (stock p) (quantity it)"
  shows "status_code (fst (createOrder e req st)) = 400
       \<and> snd (createOrder e req st) = st
       \<and> (\<not> required_details e req \<longrightarrow> fst (createOrder e req st) = missing_details)
       \<and> (required_details e req \<longrightarrow>
            (\<exists>pre bad post. its = pre @ bad # post \<and> valid_cart e (products st) pre
                \<and> \<not> valid_line e (products st) bad
                \<and> fst (createOrder e req st) = rejection (products st) bad))
       \<and> (\<forall>pre post. required_details e req \<and> its = pre @ it # post \<and> valid_cart e (products st) pre
             \<longrightarrow> fst (createOrder e req st) = insufficient_stock p)"
proof -
  from it p over have bad: "\<not> valid_cart e (products st) its" by (rule over_stock_invalid)
  have missing: "\<not> required_details e req \<Longrightarrow> createOrder e req st = (missing_details, st)"
    by (rule createOrder_missing)
  have rejected: "required_details e req \<Longrightarrow>
     \<exists>pre bad post. its = pre @ bad # post \<and> valid_cart e (products st) pre
           \<and> \<not> valid_line e (products st) bad
           \<and> createOrder e req st = (rejection (products st) bad, st)"
    using createOrder_invalid_cart[OF its _ bad] by blast
  have first: "\<And>pre post. required_details e req \<Longrightarrow> its = pre @ it # post
                 \<Longrightarrow> valid_cart e (products st) pre
                 \<Longrightarrow> fst (createOrder e req st) = insufficient_stock p"
  proof -
    fix pre post
    assume req: "required_details e req" and split: "its = pre @ it # post"
      and pre: "valid_cart e (products st) pre"
    from p over have nv: "\<not> valid_line e (products st) it" by (simp add: valid_line_def)
    from validate_items_first_failure[OF pre nv, of post "js_num e 0"] split p
    have "validate_items e (products st) its (js_num e 0) = Inl (insufficient_stock p)"
      by (simp add: rejection_def)
    with createOrder_required[OF req its, of st]
    show "fst (createOrder e req st) = insufficient_stock p" by auto
  qed
  have st400: "status_code (fst (createOrder e req st)) = 400 \<and> snd (createOrder e req st) = st"
  proof (cases "required_details e req")
    case False
    from missing[OF False] show ?thesis by (simp add: status_missing_details)
  next
    case True
    from rejected[OF True] show ?thesis by (auto simp: status_rejection)
  qed
  have m1: "\<not> required_details e req \<longrightarrow> fst (createOrder e req st) = missing_details"
    using missing by simp
  have r1: "required_details e req \<longrightarrow>
            (\<exists>pre bad post. its = pre @ bad # post \<and> valid_cart e (products st) pre
                \<and> \<not> valid_line e (products st) bad
                \<and> fst (createOrder e req st) = rejection (products st) bad)"
  proof
    assume "required_details e req"
    from rejected[OF this] obtain pre b post where
      "its = pre @ b # post" "valid_cart e (products st) pre" "\<not> valid_line e (products st) b"
      "createOrder e req st = (rejection (products st) b, st)" by blast
    then show "\<exists>pre bad post. its = pre @ bad # post \<and> valid_cart e (products st) pre
                \<and> \<not> valid_line e (products st) bad
                \<and> fst (createOrder e req st) = rejection (products st) bad"
      by (intro exI[of _ pre] exI[of _ b] exI[of _ post]) simp
  qed
  from first have f1: "\<forall>pre post. required_details e req \<and> its = pre @ it # post
             \<and> valid_cart e (products st) pre
             \<longrightarrow> fst (createOrder e req st) = insufficient_stock p" by blast
  from st400 m1 r1 f1 show ?thesis by blast
qed

text \<open>
  A cart whose second line asks for a pen that is out of stock.
\<close>

theorem createOrder_over_stock_witness:
  "createOrder env_ok (checkout [line ''p1'' 1, line ''p2'' 1] ''card'') shop
     = (json_res 400 [(''message'', JStr ''Insufficient stock for Pen'')], shop)"
proof -
  let ?its = "[line ''p1'' 1, line ''p2'' 1]"
  let ?req = "checkout ?its ''card''"
  have a: "req_items ?req = Some ?its" by (simp add: checkout_def)
  have b: "line ''p2'' 1 \<in> set ?its" by simp
  have c: "products shop (product (line ''p2'' 1)) = Some pen" by (simp add: shop_def line_def)
  have d: "js_less env_ok (stock pen) (quantity (line ''p2'' 1))"
    by (simp add: pen_def line_def env_ok_def)
  have e: "required_details env_ok ?req"
    by (simp add: required_details_def checkout_def env_ok_def ascii_def)
  have f: "?its = [line ''p1'' 1] @ line ''p2'' 1 # []" by simp
  have g: "valid_cart env_ok (products shop) [line ''p1'' 1]"
    by (simp add: valid_cart_def valid_line_def shop_def line_def mug_def env_ok_def)
  from createOrder_over_stock[OF a b c d] e f g
  have "snd (createOrder env_ok ?req shop) = shop"
    and "fst (createOrder env_ok ?req shop) = insufficient_stock pen" by blast+
  then show ?thesis by (simp add: prod_eq_iff insufficient_stock_def pen_def)
qed

text \<open>
  The claim as first stated fails when an earlier line names an unknown product: the
  answer is then the product-not-found message.
\<close>

theorem createOrder_over_stock_counterexample:
  "line ''p2'' 1 \<in> set [line ''p9'' 1, line ''p2'' 1]
   \<and> products shop (product (line ''p2'' 1)) = Some pen
   \<and> js_less env_ok (stock pen) (quantity (line ''p2'' 1))
   \<and> required_details env_ok (checkout [line ''p9'' 1, line ''p2'' 1] ''card'')
   \<and> fst (createOrder env_ok (checkout [line ''p9'' 1, line ''p2'' 1] ''card'') shop)
       = json_res 400 [(''message'', JStr ''Product not found: p9'')]
   \<and> fst (createOrder env_ok (checkout [line ''p9'' 1, line ''p2'' 1] ''card'') shop)
       \<noteq> insufficient_stock pen"
  by (simp add: eval_defs)

section \<open>createOrder: stock\<close>

lemma inc_stock_lookup:
  "inc_stock e j d ps i =
     (if i = j then map_option (\<lambda>p. p\<lparr>stock := db_inc e (stock p) d\<rparr>) (ps i) else ps i)"
  by (auto simp: inc_stock_def split: option.splits)

lemma update_stock_lookup:
  "update_stock e its ps i
     = map_option (\<lambda>p. p\<lparr>stock := decrease e (stock p) (purchased its i)\<rparr>) (ps i)"
proof (induction its arbitrary: ps)
  case Nil
  show ?case by (cases "ps i") (simp_all add: purchased_def decrease_def)
next
  case (Cons it its)
  show ?case
    by (cases "ps i") (auto simp: Cons.IH inc_stock_lookup purchased_def decrease_def)
qed

lemma stock_update_stock:
  "map_option stock (update_stock e its ps i)
     = map_option (\<lambda>s. decrease e s (purchased its i)) (map_option stock (ps i))"
  by (cases "ps i") (simp_all add: update_stock_lookup)

lemma purchased_absent: "i \<notin> product ` set its \<Longrightarrow> purchased its i = []"
proof -
  assume "i \<notin> product ` set its"
  then have "filter (\<lambda>it. product it = i) its = []" by (auto simp: filter_empty_conv)
  then show ?thesis by (simp add: purchased_def)
qed

lemma update_stock_absent: "i \<notin> product ` set its \<Longrightarrow> update_stock e its ps i = ps i"
  by (cases "ps i") (simp_all add: update_stock_lookup purchased_absent decrease_def)

text \<open>With exact arithmetic the decrease is by the sum of the quantities.\<close>

lemma decrease_exact:
  fixes s :: "'a::ab_group_add"
  assumes "db_inc e = (\<lambda>a b. a + b)" and "js_neg e = (\<lambda>a. - a)"
  shows "decrease e s qs = s - sum_list qs"
  using assms by (induction qs arbitrary: s) (simp_all add: decrease_def algebra_simps)

text \<open>Every path through \<open>place_order\<close> leaves the decremented catalog behind.\<close>

lemma place_order_products:
  "products (snd (place_order e req its addr cname cemail t0 st)) = update_stock e its (products st)"
proof (cases "req_paymentMethod req = Some ''card''")
  case True
  let ?t = "charged e req t0"
  let ?ord = "new_order e req its addr cname cemail ?t"
  let ?st2 = "st\<lparr>orders := save ?ord (orders st), products := update_stock e its (products st)\<rparr>"
  show ?thesis
  proof (cases "card_payment e req ?t ?ord ?st2")
    case (Inl a)
    obtain err st' where a: "a = (err, st')" by (cases a)
    from card_payment_Inl[OF Inl[unfolded a]] True Inl a show ?thesis
      by (auto simp: place_order_def Let_def)
  next
    case (Inr b)
    obtain r st' where b: "b = (r, st')" by (cases b)
    from card_payment_Inr[OF Inr[unfolded b]] True Inr b show ?thesis
      by (auto simp: place_order_def Let_def)
  qed
next
  case False
  then show ?thesis
    by (auto simp: place_order_def Let_def split: sum.splits dest!: send_confirmation_orders)
qed

lemma createOrder_created_runs:
  assumes its: "req_items req = Some its"
      and ok: "status_code (fst (createOrder e req st)) = 201"
  shows "\<exists>addr cname cemail t0. createOrder e req st = place_order e req its addr cname cemail t0 st"
  using createOrder_cases[OF its, of e st] ok
  by (auto simp: status_missing_details dest: status_validate_items)

text \<open>
  Claim C3. After a card order that \<open>createOrder\<close> answers with 201, the stock of every
  product has been decreased by the quantity of each line that names it, through the
  database's \<open>$inc\<close> by minus the quantity: a product no line names is unchanged, and a
  product named by one line has its stock decreased by exactly that line's quantity.
\<close>

theorem createOrder_stock:
  assumes its: "req_items req = Some its"
      and card: "req_paymentMethod req = Some ''card''"
      and ok: "status_code (fst (createOrder e req st)) = 201"
  shows "(\<forall>i. stock_at (snd (createOrder e req st)) i
              = map_option (\<lambda>s. decrease e s (purchased its i)) (stock_at st i))
       \<and> (\<forall>i. i \<notin> product ` set its \<longrightarrow> products (snd (createOrder e req st)) i = products st i)
       \<and> (\<forall>it \<in> set its. purchased its (product it) = [quantity it] \<longrightarrow>
             stock_at (snd (createOrder e req st)) (product it)
               = map_option (\<lambda>s. db_inc e s (js_neg e (quantity it))) (stock_at st (product it)))"
proof -
  from createOrder_created_runs[OF its ok] obtain addr cname cemail t0 where
    run: "createOrder e req st = place_order e req its addr cname cemail t0 st" by blast
  have prods: "products (snd (createOrder e req st)) = update_stock e its (products st)"
    by (simp add: run place_order_products)
  have all: "\<And>i. stock_at (snd (createOrder e req st)) i
              = map_option (\<lambda>s. decrease e s (purchased its i)) (stock_at st i)"
    by (simp add: stock_at_def prods stock_update_stock)
  have other: "\<And>i. i \<notin> product ` set its \<Longrightarrow> products (snd (createOrder e req st)) i = products st i"
    by (simp add: prods update_stock_absent)
  have single: "\<And>it. purchased its (product it) = [quantity it] \<Longrightarrow>
             stock_at (snd (createOrder e req st)) (product it)
               = map_option (\<lambda>s. db_inc e s (js_neg e (quantity it))) (stock_at st (product it))"
    using all by (simp add: decrease_def)
  from all other single show ?thesis by blast
qed

text \<open>
  A card order with lines of 2 and 1 mugs: 3 mugs are purchased, the stock goes from 5
  to 2, and the stock of pens stays 0.
\<close>

theorem createOrder_stock_witness:
  "status_code (fst (createOrder env_ok (checkout [line ''p1'' 2, line ''p1'' 1] ''card'') shop)) = 201
   \<and> stock_at shop ''p1'' = Some 5
   \<and> stock_at (snd (createOrder env_ok (checkout [line ''p1'' 2, line ''p1'' 1] ''card'') shop)) ''p1''
       = Some 2
   \<and> stock_at (snd (createOrder env_ok (checkout [line ''p1'' 2, line ''p1'' 1] ''card'') shop)) ''p2''
       = Some 0"
proof -
  let ?its = "[line ''p1'' 2, line ''p1'' 1]"
  let ?req = "checkout ?its ''card''"
  have a: "req_items ?req = Some ?its" "req_paymentMethod ?req = Some ''card''"
    by (simp_all add: checkout_def)
  have b: "status_code (fst (createOrder env_ok ?req shop)) = 201" by (simp add: eval_defs)
  have c: "purchased ?its ''p1'' = [2, 1]" "purchased ?its ''p2'' = []"
    by (simp_all add: purchased_def line_def)
  have d: "db_inc env_ok = (\<lambda>a b. a + b)" "js_neg env_ok = (\<lambda>a. - a)"
    by (simp_all add: env_ok_def)
  have s: "stock_at shop ''p1'' = Some 5" "stock_at shop ''p2'' = Some 0"
    by (simp_all add: stock_at_def shop_def mug_def pen_def)
  from createOrder_stock[OF a b]
  have "\<And>i. stock_at (snd (createOrder env_ok ?req shop)) i
              = map_option (\<lambda>s. decrease env_ok s (purchased ?its i)) (stock_at shop i)" by blast
  from this[of "''p1''"] this[of "''p2''"] b c s show ?thesis
    by (simp add: decrease_exact[OF d])
qed

section \<open>createOrder: the payment gateway fails\<close>

lemma card_payment_gateway_down:
  "stripe_create e (cents e t) (oid ord) = Inl err \<Longrightarrow> card_payment e req t ord st = Inl (err, st)"
  by (simp add: card_payment_def)

lemma place_order_gateway_down:
  assumes card: "req_paymentMethod req = Some ''card''"
      and fresh: "findById (fresh_id e) (orders st) = None"
      and down: "stripe_create e (cents e (charged e req t0)) (fresh_id e) = Inl err"
  shows "place_order e req its addr cname cemail t0 st
           = (create_failed e err, st\<lparr>products := update_stock e its (products st)\<rparr>)"
  using card fresh down
  by (simp add: place_order_def Let_def card_payment_gateway_down save_fresh delete_last)

lemma createOrder_gateway_down:
  assumes req: "required_details e req" and its: "req_items req = Some its"
      and valid: "valid_cart e (products st) its"
      and card: "req_paymentMethod req = Some ''card''"
      and fresh: "findById (fresh_id e) (orders st) = None"
      and down: "stripe_create e (cents e (order_total e (products st) its req)) (fresh_id e) = Inl err"
  shows "createOrder e req st
           = (create_failed e err, st\<lparr>products := update_stock e its (products st)\<rparr>)"
proof -
  from createOrder_valid_runs[OF req its valid] obtain addr cname cemail where
    run: "createOrder e req st
            = place_order e req its addr cname cemail (server_total e (products st) its) st"
    by blast
  from down have "stripe_create e (cents e (charged e req (server_total e (products st) its)))
                    (fresh_id e) = Inl err"
    by (simp add: charged_total)
  from place_order_gateway_down[OF card fresh this] run show ?thesis by simp
qed

text \<open>
  Claim C4. For a card order with the required details and a valid cart, when the
  gateway's create-payment-intent call fails, \<open>createOrder\<close> answers with the failure
  response carrying the gateway's error (status 500), the orders collection is what it was
  before the request, and no order is stored under the new id.
\<close>

theorem createOrder_compensating_delete:
  assumes req: "required_details e req" and its: "req_items req = Some its"
      and valid: "valid_cart e (products st) its"
      and card: "req_paymentMethod req = Some ''card''"
      and fresh: "findById (fresh_id e) (orders st) = None"
      and down: "stripe_create e (cents e (order_total e (products st) its req)) (fresh_id e) = Inl err"
  shows "fst (createOrder e req st) = create_failed e err
       \<and> status_code (fst (createOrder e req st)) = 500
       \<and> orders (snd (createOrder e req st)) = orders st
       \<and> findById (fresh_id e) (orders (snd (createOrder e req st))) = None"
  using createOrder_gateway_down[OF req its valid card fresh down] fresh
  by (simp add: status_create_failed)

text \<open>A card order for two mugs, with the gateway unreachable.\<close>

lemma sample_card_request:
  "required_details env_gateway_down (checkout [line ''p1'' 2] ''card'')"
  "req_items (checkout [line ''p1'' 2] ''card'') = Some [line ''p1'' 2]"
  "valid_cart env_gateway_down (products shop) [line ''p1'' 2]"
  "req_paymentMethod (checkout [line ''p1'' 2] ''card'') = Some ''card''"
  "findById (fresh_id env_gateway_down) (orders shop) = None"
  "stripe_create env_gateway_down
     (cents env_gateway_down
        (order_total env_gateway_down (products shop) [line ''p1'' 2] (checkout [line ''p1'' 2] ''card'')))
     (fresh_id env_gateway_down) = Inl \<lparr>message = ''gateway unreachable'', stack = []\<rparr>"
  by (simp_all add: required_details_def checkout_def valid_cart_def valid_line_def shop_def
      line_def mug_def env_gateway_down_def env_ok_def findById_def ascii_def)

theorem createOrder_compensating_delete_witness:
  "fst (createOrder env_gateway_down (checkout [line ''p1'' 2] ''card'') shop)
     = json_res 500 [(''message'', JStr ''gateway unreachable'')]
   \<and> orders (snd (createOrder env_gateway_down (checkout [line ''p1'' 2] ''card'') shop)) = []"
  using createOrder_compensating_delete[OF sample_card_request]
  by (simp add: create_failed_def or_default_def env_gateway_down_def env_ok_def shop_def)

text \<open>
  Claim C10. In the same situation the compensating delete removes the order only: the
  catalog is the one the decrement loop left, so the stock of every product stays reduced
  by the quantities the cart asked of it, while the orders collection is unchanged.
\<close>

theorem createOrder_stock_not_restored:
  assumes req: "required_details e req" and its: "req_items req = Some its"
      and valid: "valid_cart e (products st) its"
      and card: "req_paymentMethod req = Some ''card''"
      and fresh: "findById (fresh_id e) (orders st) = None"
      and down: "stripe_create e (cents e (order_total e (products st) its req)) (fresh_id e) = Inl err"
  shows "status_code (fst (createOrder e req st)) = 500
       \<and> orders (snd (createOrder e req st)) = orders st
       \<and> products (snd (createOrder e req st)) = update_stock e its (products st)
       \<and> (\<forall>i. stock_at (snd (createOrder e req st)) i
                = map_option (\<lambda>s. decrease e s (purchased its i)) (stock_at st i))"
  using createOrder_gateway_down[OF req its valid card fresh down]
  by (simp add: status_create_failed stock_at_def stock_update_stock)

theorem createOrder_stock_not_restored_witness:
  "status_code (fst (createOrder env_gateway_down (checkout [line ''p1'' 2] ''card'') shop)) = 500
   \<and> orders (snd (createOrder env_gateway_down (checkout [line ''p1'' 2] ''card'') shop)) = []
   \<and> stock_at shop ''p1'' = Some 5
   \<and> stock_at (snd (createOrder env_gateway_down (checkout [line ''p1'' 2] ''card'') shop)) ''p1''
       = Some 3"
proof -
  have "purchased [line ''p1'' 2] ''p1'' = [2]" by (simp add: purchased_def line_def)
  moreover have "stock_at shop ''p1'' = Some 5" by (simp add: stock_at_def shop_def mug_def)
  moreover have "orders shop = []" by (simp add: shop_def)
  moreover have "db_inc env_gateway_down = (\<lambda>a b. a + b)" "js_neg env_gateway_down = (\<lambda>a. - a)"
    by (simp_all add: env_gateway_down_def env_ok_def)
  ultimately show ?thesis
    using createOrder_stock_not_restored[OF sample_card_request] by (simp add: decrease_def)
qed

section \<open>updatePaymentStatus\<close>

lemma notify_paid_store:
  "notify_paid e ord st = Inr st' \<Longrightarrow>
   orders st' = orders st \<and> products st' = products st \<and> users st' = users st"
  by (auto simp: notify_paid_def split: option.splits dest: sendEmail_orders)

text \<open>The orders collection after the handler, by the retrieved intent status.\<close>

lemma updatePaymentStatus_orders:
  assumes found: "findById (pr_orderId req) (orders st) = Some ord"
      and got: "stripe_retrieve e (pr_paymentIntentId req) = Inr pint"
  shows "orders (snd (updatePaymentStatus e req st)) =
          (if intent_status pint = ''succeeded''
           then save (ord\<lparr>paymentStatus := ''paid'', orderStatus := ''processing''\<rparr>) (orders st)
           else if intent_status pint = ''payment_failed''
           then save (ord\<lparr>paymentStatus := ''failed''\<rparr>) (orders st)
           else orders st)"
  using found got
  by (auto simp: updatePaymentStatus_def Let_def split: sum.splits dest: notify_paid_store)

text \<open>The status the caller claims plays no part.\<close>

lemma updatePaymentStatus_ignores_claim:
  "updatePaymentStatus e (req\<lparr>pr_status := s\<rparr>) st = updatePaymentStatus e req st"
  by (simp add: updatePaymentStatus_def cong: option.case_cong sum.case_cong)

text \<open>
  What the retrieved status does to the order: \<open>succeeded\<close> stores it as paid,
  \<open>payment_failed\<close> as failed with a 400, and any other status leaves the store as it
  was with a 400.
\<close>

lemma updatePaymentStatus_transitions:
  assumes found: "findById (pr_orderId req) (orders st) = Some ord"
      and got: "stripe_retrieve e (pr_paymentIntentId req) = Inr pint"
  shows "(intent_status pint = ''succeeded'' \<longrightarrow>
            findById (pr_orderId req) (orders (snd (updatePaymentStatus e req st)))
              = Some (ord\<lparr>paymentStatus := ''paid'', orderStatus := ''processing''\<rparr>))
       \<and> (intent_status pint = ''payment_failed'' \<longrightarrow>
            findById (pr_orderId req) (orders (snd (updatePaymentStatus e req st)))
              = Some (ord\<lparr>paymentStatus := ''failed''\<rparr>)
            \<and> status_code (fst (updatePaymentStatus e req st)) = 400)
       \<and> (intent_status pint \<noteq> ''succeeded'' \<and> intent_status pint \<noteq> ''payment_failed'' \<longrightarrow>
            snd (updatePaymentStatus e req st) = st
            \<and> status_code (fst (updatePaymentStatus e req st)) = 400)"
proof (intro conjI impI)
  assume "intent_status pint = ''succeeded''"
  with updatePaymentStatus_orders[OF found got] findById_oid[OF found]
  show "findById (pr_orderId req) (orders (snd (updatePaymentStatus e req st)))
              = Some (ord\<lparr>paymentStatus := ''paid'', orderStatus := ''processing''\<rparr>)"
    by (simp add: findById_save)
next
  assume f: "intent_status pint = ''payment_failed''"
  with updatePaymentStatus_orders[OF found got] findById_oid[OF found]
  show "findById (pr_orderId req) (orders (snd (updatePaymentStatus e req st)))
              = Some (ord\<lparr>paymentStatus := ''failed''\<rparr>)"
    by (simp add: findById_save)
  from f found got show "status_code (fst (updatePaymentStatus e req st)) = 400"
    by (simp add: updatePaymentStatus_def json_res_def)
next
  assume "intent_status pint \<noteq> ''succeeded'' \<and> intent_status pint \<noteq> ''payment_failed''"
  with found got show "snd (updatePaymentStatus e req st) = st"
    and "status_code (fst (updatePaymentStatus e req st)) = 400"
    by (simp_all add: updatePaymentStatus_def json_res_def)
qed

text \<open>
  Claim C5 at a failing input. The order that \<open>createOrder\<close> stored for Bob has no \<open>user\<close>.
  The gateway reports \<open>succeeded\<close> for its intent: the order is stored as \<open>paid\<close>, then
  reading \<open>order.user.email\<close> throws, so no status-update email is attempted and the
  request is answered 500.
\<close>

theorem updatePaymentStatus_no_user:
  "map_option user (findById ''650a7'' (orders shop_after_checkout)) = Some None
   \<and> stripe_retrieve env_ok (pr_paymentIntentId (confirm ''succeeded''))
       = Inr (gateway_intent ''succeeded'')
   \<and> map_option paymentStatus
       (findById ''650a7'' (orders (snd (updatePaymentStatus env_ok (confirm ''succeeded'') shop_after_checkout))))
       = Some ''paid''
   \<and> outbox (snd (updatePaymentStatus env_ok (confirm ''succeeded'') shop_after_checkout))
       = outbox shop_after_checkout
   \<and> fst (updatePaymentStatus env_ok (confirm ''succeeded'') shop_after_checkout)
       = json_res 500 [(''message'',
            JStr (''Cannot read properties of undefined (reading '' @ quoted ''email'' @ '')''))]"
  by (simp add: eval_defs shop_after_checkout_def confirm_def updatePaymentStatus_def
      notify_paid_def payment_update_failed_def cannot_read_def raise_def)

section \<open>updatePaymentStatus twice\<close>

text \<open>
  Claim C6. With the gateway reporting \<open>succeeded\<close>, running \<open>updatePaymentStatus\<close> a
  second time leaves the orders collection as the first run left it: the order's
  \<open>paymentStatus\<close> is \<open>paid\<close> and its status history is the one it had before the first
  run, with no entry added.
\<close>

theorem updatePaymentStatus_idempotent:
  assumes found: "findById (pr_orderId req) (orders st) = Some ord"
      and got: "stripe_retrieve e (pr_paymentIntentId req) = Inr pint"
      and paid: "intent_status pint = ''succeeded''"
  shows "orders (snd (updatePaymentStatus e req (snd (updatePaymentStatus e req st))))
           = orders (snd (updatePaymentStatus e req st))
       \<and> map_option paymentStatus
           (findById (pr_orderId req)
              (orders (snd (updatePaymentStatus e req (snd (updatePaymentStatus e req st))))))
           = Some ''paid''
       \<and> map_option statusHistory
           (findById (pr_orderId req)
              (orders (snd (updatePaymentStatus e req (snd (updatePaymentStatus e req st))))))
           = Some (statusHistory ord)"
proof -
  let ?ord' = "ord\<lparr>paymentStatus := ''paid'', orderStatus := ''processing''\<rparr>"
  let ?st1 = "snd (updatePaymentStatus e req st)"
  have i: "oid ?ord' = pr_orderId req" using findById_oid[OF found] by simp
  from updatePaymentStatus_orders[OF found got] paid
  have o1: "orders ?st1 = save ?ord' (orders st)" by simp
  with i have found1: "findById (pr_orderId req) (orders ?st1) = Some ?ord'"
    by (simp add: findById_save)
  from updatePaymentStatus_orders[OF found1 got] paid
  have "orders (snd (updatePaymentStatus e req ?st1)) = save ?ord' (orders ?st1)" by simp
  with o1 have o2: "orders (snd (updatePaymentStatus e req ?st1)) = orders ?st1"
    by (simp add: save_save)
  with found1 show ?thesis by simp
qed

theorem updatePaymentStatus_idempotent_witness:
  "orders (snd (updatePaymentStatus env_ok (confirm ''succeeded'')
                  (snd (updatePaymentStatus env_ok (confirm ''succeeded'') shop_with_order))))
     = [alices_order\<lparr>paymentStatus := ''paid''\<rparr>]
   \<and> orders (snd (updatePaymentStatus env_ok (confirm ''succeeded'') shop_with_order))
     = [alices_order\<lparr>paymentStatus := ''paid''\<rparr>]"
proof -
  have f: "findById (pr_orderId (confirm ''succeeded'')) (orders shop_with_order) = Some alices_order"
    and g: "stripe_retrieve env_ok (pr_paymentIntentId (confirm ''succeeded'')) = Inr (gateway_intent ''succeeded'')"
    and p: "intent_status (gateway_intent ''succeeded'') = ''succeeded''"
    by (simp_all add: confirm_def shop_with_order_def alices_order_def findById_def env_ok_def
        gateway_intent_def)
  have once: "orders (snd (updatePaymentStatus env_ok (confirm ''succeeded'') shop_with_order))
     = [alices_order\<lparr>paymentStatus := ''paid''\<rparr>]"
    using updatePaymentStatus_orders[OF f g] p
    by (simp add: shop_with_order_def save_def findById_def alices_order_def)
  with updatePaymentStatus_idempotent[OF f g p] show ?thesis by simp
qed

section \<open>Email failures\<close>

text \<open>The admin status update does not depend on what the mail transport does.\<close>

lemma updateOrderStatus_mail_independent:
  "fst (updateOrderStatus (e\<lparr>sendMail := f\<rparr>) req st) = fst (updateOrderStatus e req st)
   \<and> orders (snd (updateOrderStatus (e\<lparr>sendMail := f\<rparr>) req st)) = orders (snd (updateOrderStatus e req st))"
  by (auto simp: updateOrderStatus_def notify_status_def Let_def sendEmail_def
      split: option.splits sum.splits)

text \<open>
  Claim C8 at a failing input: the mail transport refuses every mail. The card order
  whose payment intent was created is deleted and answered with 500, its stock staying
  decremented; the cash-on-delivery order is answered with 500 though it stays stored;
  the payment status update is answered with 500 though \<open>paid\<close> is stored. Only the admin
  status update answers 200.
\<close>

theorem createOrder_mail_failure:
  "stripe_create env_mail_down (cents env_mail_down 26) ''650a7''
       = Inr (gateway_intent ''requires_payment_method'')
   \<and> status_code (fst (createOrder env_mail_down (checkout [line ''p1'' 2] ''card'') shop)) = 500
   \<and> orders (snd (createOrder env_mail_down (checkout [line ''p1'' 2] ''card'') shop)) = []
   \<and> stock_at (snd (createOrder env_mail_down (checkout [line ''p1'' 2] ''card'') shop)) ''p1'' = Some 3
   \<and> status_code (fst (createOrder env_mail_down (checkout [line ''p1'' 2] ''cash'') shop)) = 500
   \<and> map_option totalAmount
       (findById ''650a7'' (orders (snd (createOrder env_mail_down (checkout [line ''p1'' 2] ''cash'') shop))))
       = Some 26
   \<and> status_code (fst (updatePaymentStatus env_mail_down (confirm ''succeeded'') shop_with_order)) = 500
   \<and> map_option paymentStatus
       (findById ''650a7'' (orders (snd (updatePaymentStatus env_mail_down (confirm ''succeeded'') shop_with_order))))
       = Some ''paid''
   \<and> status_code (fst (updateOrderStatus env_mail_down mark_shipped shop_with_order)) = 200
   \<and> map_option status
       (findById ''650a7'' (orders (snd (updateOrderStatus env_mail_down mark_shipped shop_with_order))))
       = Some (Some ''shipped'')"
  by (simp add: eval_defs confirm_def updatePaymentStatus_def shop_with_order_def alices_order_def
      notify_paid_def payment_update_failed_def populate_user_def alice_def status_mail_def
      updateOrderStatus_def notify_status_def mark_shipped_def)

section \<open>Login failures\<close>

lemma login_credentials:
  "em \<noteq> [] \<Longrightarrow> pw \<noteq> [] \<Longrightarrow> login e (credentials em pw) st = check_credentials e em pw st"
  by (simp add: login_def credentials_def)

text \<open>
  Whatever the store and the passwords: a known email with a wrong password and an
  unknown email get the same status and message, and different \<open>error\<close> fields.
\<close>

lemma login_failure_responses:
  assumes known: "em \<noteq> []" "pw \<noteq> []" "emailRegex_test em"
                 "find (\<lambda>u. email u = toLowerCase e em) (users st) = Some u"
                 "password u = Some h" "\<not> bcrypt_compare e pw h"
      and unknown: "em' \<noteq> []" "pw' \<noteq> []" "emailRegex_test em'"
                 "find (\<lambda>u. email u = toLowerCase e em') (users st) = None"
  shows "login e (credentials em pw) st
           = login_error 400 ''Invalid email or password'' ''INVALID_PASSWORD''
       \<and> login e (credentials em' pw') st
           = login_error 400 ''Invalid email or password'' ''USER_NOT_FOUND''
       \<and> login e (credentials em pw) st \<noteq> login e (credentials em' pw') st"
proof -
  from known have a: "login e (credentials em pw) st
           = login_error 400 ''Invalid email or password'' ''INVALID_PASSWORD''"
    by (simp add: login_credentials check_credentials_def)
  from unknown have b: "login e (credentials em' pw') st
           = login_error 400 ''Invalid email or password'' ''USER_NOT_FOUND''"
    by (simp add: login_credentials check_credentials_def)
  show ?thesis unfolding a b
    by (simp add: login_error_def json_res_def)
qed

lemma sample_emails:
  "emailRegex_test (ascii ''alice@shop.io'')"
  "toLowerCase env_ok (ascii ''alice@shop.io'') = ascii ''alice@shop.io''"
  "emailRegex_test (ascii ''carol@shop.io'')"
  "toLowerCase env_ok (ascii ''carol@shop.io'') = ascii ''carol@shop.io''"
  by (simp_all add: emailRegex_test_def plain_def is_space_def env_ok_def ascii_lower_def
      ascii_def Let_def)

text \<open>
  Claim C7 at a failing input. Alice is a user of the shop, Carol is not; both logins use
  a wrong password. Status and message are the same, but the body sent to the client
  says \<open>INVALID_PASSWORD\<close> for Alice and \<open>USER_NOT_FOUND\<close> for Carol: the two responses
  differ, and tell the client which emails are registered.
\<close>

theorem login_failures_distinguishable:
  "login env_ok (credentials (ascii ''alice@shop.io'') (ascii ''guess'')) shop
     = json_res 400 [(''message'', JStr ''Invalid email or password''),
                     (''error'', JStr ''INVALID_PASSWORD'')]
   \<and> login env_ok (credentials (ascii ''carol@shop.io'') (ascii ''guess'')) shop
     = json_res 400 [(''message'', JStr ''Invalid email or password''),
                     (''error'', JStr ''USER_NOT_FOUND'')]
   \<and> login env_ok (credentials (ascii ''alice@shop.io'') (ascii ''guess'')) shop
     \<noteq> login env_ok (credentials (ascii ''carol@shop.io'') (ascii ''guess'')) shop"
proof -
  have k: "find (\<lambda>u. email u = toLowerCase env_ok (ascii ''alice@shop.io'')) (users shop) = Some alice"
     "password alice = Some ''hash-secret''"
     "\<not> bcrypt_compare env_ok (ascii ''guess'') ''hash-secret''"
    by (simp_all add: sample_emails shop_def alice_def) (simp_all add: env_ok_def ascii_def)
  have u: "find (\<lambda>u. email u = toLowerCase env_ok (ascii ''carol@shop.io'')) (users shop) = None"
    by (simp add: sample_emails shop_def alice_def) (simp add: ascii_def)
  have ne: "ascii ''alice@shop.io'' \<noteq> []" "ascii ''guess'' \<noteq> []" "ascii ''carol@shop.io'' \<noteq> []"
    by (simp_all add: ascii_def)
  from login_failure_responses[OF ne(1) ne(2) sample_emails(1) k ne(3) ne(2) sample_emails(3) u]
  show ?thesis by (simp add: login_error_def json_res_def)
qed

section \<open>Catalog prices and stored orders\<close>





















end
